theory Spec2Isabelle
  imports Main "HOL-Library.Monad_Syntax"
begin

section \<open>Data model of oko-glitch.go\<close>

text \<open>
  Go strings are byte sequences; \<^typ>\<open>string\<close> is a list of 8-bit characters, so a
  string of the program is the list of its UTF-8 bytes. Several structs of the source
  share field names (\<open>Title\<close>, \<open>Link\<close>, \<open>Url\<close>); a record field is a constant, so
  those fields carry the name of their struct as a prefix.
\<close>

record SeoFields =
  Slug :: string

record Image =
  Image_Url :: string

record Node =
  ID :: string
  Node_Title :: string
  Published :: string
  SeoFields :: SeoFields
  Image :: Image

record JsonData =
  Nodes :: "Node list"

record JsonResponse =
  Data :: JsonData

record Guid =
  Content :: string
  IsPermaLink :: bool

record Enclosure =
  Enclosure_Url :: string
  Length :: int
  Type :: string

record RssItem =
  Item_Title :: string
  Item_Link :: string
  Guid :: Guid
  PubDate :: string
  Enclosure :: Enclosure

record AtomLink =
  Rel :: string
  Href :: string

record Channel =
  AtomLink :: AtomLink
  Channel_Title :: string
  Channel_Link :: string
  Desc :: string
  Item :: "RssItem list"

record RssFeed =
  Version :: string
  Atom :: string
  Channel :: Channel

record Config =
  Config_Url :: string
  ThumbnailCompression :: string
  Interval :: int

text \<open>
  Values of Go's \<open>error\<close> that reach the program, and the panics the program raises
  with \<open>log.Panic\<close>, one constructor for each call in the source.
\<close>

datatype error =
    ParseError
  | NetError
  | SyntaxError
  | UnmarshalTypeError string
  | EncodeError
  | OpenError
  | ListenError

datatype panic =
    FetchPanic error
  | StatusPanic int
  | JsonPanic error
  | XmlPanic error
  | FilePanic error
  | ConfigPanic error
  | ServePanic error

section \<open>The time package, as far as JsonToRssItem and OkoPressRss use it\<close>

text \<open>
  A \<open>time.Time\<close> is represented by the calendar fields it shows in its own location
  and the offset of that location east of UTC, in seconds. \<open>time.Parse\<close> builds its
  result with \<open>Date\<close> from fields it has range-checked, and \<open>Format\<close> prints the
  fields back, so the instant in between is not needed. The zero \<open>Time{}\<close> is
  January 1 of year 1, 00:00:00 UTC.
\<close>

record Time =
  Year :: int
  Month :: nat
  Day :: nat
  Hour :: nat
  Minute :: nat
  Second :: nat
  ZoneOffset :: int

definition zeroTime :: Time where
  "zeroTime = \<lparr>Year = 1, Month = 1, Day = 1, Hour = 0, Minute = 0, Second = 0, ZoneOffset = 0\<rparr>"

definition isDigitChar :: "char \<Rightarrow> bool" where
  "isDigitChar c = (48 \<le> (of_char c :: nat) \<and> (of_char c :: nat) \<le> 57)"

definition isDigit :: "string \<Rightarrow> nat \<Rightarrow> bool" where
  "isDigit s i = (if length s \<le> i then False else isDigitChar (s ! i))"

definition digitVal :: "char \<Rightarrow> nat" where
  "digitVal c = of_char c - 48"

text \<open>\<open>getnum\<close>: one or two digits; exactly two when \<open>fixed\<close>.\<close>

definition getnum :: "string \<Rightarrow> bool \<Rightarrow> (nat \<times> string) option" where
  "getnum s fixed =
     (if \<not> isDigit s 0 then None
      else if \<not> isDigit s 1 then
        (if fixed then None else Some (digitVal (s ! 0), drop 1 s))
      else Some (digitVal (s ! 0) * 10 + digitVal (s ! 1), drop 2 s))"

text \<open>
  The \<open>stdLongYear\<close> case of \<open>parse\<close>: at least four bytes, the first a digit, and
  \<open>atoi\<close> of the first four succeeds, which after a leading digit means four digits.
\<close>

definition getyear :: "string \<Rightarrow> (nat \<times> string) option" where
  "getyear s =
     (if length s < 4 \<or> \<not> isDigit s 0 then None
      else if \<not> list_all isDigitChar (take 4 s) then None
      else Some (foldl (\<lambda>x c. x * 10 + digitVal c) 0 (take 4 s), drop 4 s))"

text \<open>\<open>skip\<close> for a layout prefix without spaces (the layout's are \<open>-\<close>, \<open>T\<close>, \<open>:\<close>).\<close>

fun skip :: "string \<Rightarrow> string \<Rightarrow> string option" where
  "skip v [] = Some v"
| "skip [] (p # ps) = None"
| "skip (v # vs) (p # ps) = (if v \<noteq> p then None else skip vs ps)"

definition commaOrPeriod :: "char \<Rightarrow> bool" where
  "commaOrPeriod c = (c = CHR ''.'' \<or> c = CHR '','')"

text \<open>
  After the seconds, a fraction that the layout does not mention is accepted and read:
  a comma or period, a digit, and the digits that follow. Its value goes to the
  nanoseconds, which the output layout never prints.
\<close>

definition skipFraction :: "string \<Rightarrow> string" where
  "skipFraction v =
     (if length v \<ge> 2 \<and> commaOrPeriod (v ! 0) \<and> isDigit v 1
      then dropWhile isDigitChar (drop 2 v) else v)"

definition isLeap :: "nat \<Rightarrow> bool" where
  "isLeap y = (y mod 4 = 0 \<and> (y mod 100 \<noteq> 0 \<or> y mod 400 = 0))"

definition daysIn :: "nat \<Rightarrow> nat \<Rightarrow> nat" where
  "daysIn m y =
     (if m = 2 then (if isLeap y then 29 else 28)
      else if m = 4 \<or> m = 6 \<or> m = 9 \<or> m = 11 then 30 else 31)"

definition check :: "bool \<Rightarrow> unit option" where
  "check b = (if b then Some () else None)"

text \<open>
  \<open>parse\<close> at the layout \<open>2006-01-02T15:04:05\<close>, chunk by chunk: long year, zero
  month, zero day, hour (one or two digits), zero minute, zero second; a range error
  is reported at its chunk, remaining text after the last chunk is an error, and the
  day is checked against the month at the end. \<open>None\<close> is any of the errors.
\<close>

definition parseOko :: "string \<Rightarrow> Time option" where
  "parseOko v0 = do {
     (y, v1) \<leftarrow> getyear v0;
     v2 \<leftarrow> skip v1 ''-'';
     (mo, v3) \<leftarrow> getnum v2 True;
     _ \<leftarrow> check (\<not> (mo \<le> 0 \<or> 12 < mo));
     v4 \<leftarrow> skip v3 ''-'';
     (d, v5) \<leftarrow> getnum v4 True;
     v6 \<leftarrow> skip v5 ''T'';
     (h, v7) \<leftarrow> getnum v6 False;
     _ \<leftarrow> check (\<not> (24 \<le> h));
     v8 \<leftarrow> skip v7 '':'';
     (mi, v9) \<leftarrow> getnum v8 True;
     _ \<leftarrow> check (\<not> (60 \<le> mi));
     v10 \<leftarrow> skip v9 '':'';
     (s, v11) \<leftarrow> getnum v10 True;
     _ \<leftarrow> check (\<not> (60 \<le> s));
     _ \<leftarrow> check (skipFraction v11 = []);
     _ \<leftarrow> check (\<not> (d < 1 \<or> d > daysIn mo y));
     Some \<lparr>Year = int y, Month = mo, Day = d, Hour = h, Minute = mi, Second = s,
           ZoneOffset = 0\<rparr>
   }"

text \<open>
  \<open>time.ParseInLocation("2006-01-02T15:04:05", value, UTC)\<close> returns a time and an
  error; on every error the time is \<open>Time{}\<close>.
\<close>

definition ParseInLocation :: "string \<Rightarrow> Time \<times> error option" where
  "ParseInLocation v =
     (case parseOko v of None \<Rightarrow> (zeroTime, Some ParseError) | Some t \<Rightarrow> (t, None))"

definition digitChar :: "nat \<Rightarrow> char" where
  "digitChar n = char_of (48 + n)"

fun decimal :: "nat \<Rightarrow> string" where
  "decimal n = (if n < 10 then [digitChar n] else decimal (n div 10) @ [digitChar (n mod 10)])"

declare decimal.simps [simp del]

text \<open>\<open>appendInt\<close>: sign, then the decimal digits padded with zeros to the width.\<close>

definition appendInt :: "int \<Rightarrow> nat \<Rightarrow> string" where
  "appendInt x width =
     (let ds = decimal (nat \<bar>x\<bar>)
      in (if x < 0 then ''-'' else []) @ replicate (width - length ds) CHR ''0'' @ ds)"

text \<open>The first three bytes of \<open>Month.String()\<close>.\<close>

definition shortMonth :: "nat \<Rightarrow> string" where
  "shortMonth m =
     (if 1 \<le> m \<and> m \<le> 12
      then [''Jan'', ''Feb'', ''Mar'', ''Apr'', ''May'', ''Jun'',
            ''Jul'', ''Aug'', ''Sep'', ''Oct'', ''Nov'', ''Dec''] ! (m - 1)
      else ''%!M'')"

text \<open>Go's integer division truncates towards zero.\<close>

definition quo :: "int \<Rightarrow> int \<Rightarrow> int" where
  "quo a b = (if a < 0 then - ((- a) div b) else a div b)"

text \<open>The \<open>-0700\<close> chunk: sign, hours and minutes of the offset.\<close>

definition numTZ :: "int \<Rightarrow> string" where
  "numTZ off =
     (let zone = quo off 60;
          z = \<bar>zone\<bar>
      in (if zone < 0 then ''-'' else ''+'') @ appendInt (z div 60) 2 @ appendInt (z mod 60) 2)"

text \<open>\<open>t.Format("02 Jan 2006 15:04 -0700")\<close>.\<close>

definition Format :: "Time \<Rightarrow> string" where
  "Format t =
     appendInt (int (Day t)) 2 @ '' '' @ shortMonth (Month t) @ '' '' @
     appendInt (Year t) 4 @ '' '' @ appendInt (int (Hour t)) 2 @ '':'' @
     appendInt (int (Minute t)) 2 @ '' '' @ numTZ (ZoneOffset t)"

section \<open>encoding/json, as far as the decoding of the upstream response uses it\<close>

text \<open>
  \<open>Decoder.Decode\<close> first reads one complete JSON value from the body and fails
  with a syntax error (or \<open>io.EOF\<close>) when there is none; then it stores the value
  into the struct. The first step is represented by its result: a body is either
  not a JSON text or the JSON value it starts with. The second step is modelled on the
  values. Object members keep their order and may repeat; a number keeps its literal.
\<close>

datatype json =
    JNull
  | JBool bool
  | JNumber string
  | JString string
  | JArray "json list"
  | JObject "(string \<times> json) list"

datatype body = NotJson | JsonValue json

definition kindOf :: "json \<Rightarrow> string" where
  "kindOf j =
     (case j of JNull \<Rightarrow> ''null'' | JBool _ \<Rightarrow> ''bool'' | JNumber _ \<Rightarrow> ''number''
      | JString _ \<Rightarrow> ''string'' | JArray _ \<Rightarrow> ''array'' | JObject _ \<Rightarrow> ''object'')"

text \<open>
  A member is stored into the field whose name equals its key under Unicode simple case
  folding. The names of the source are ASCII, and the only other characters that fold
  to an ASCII letter are U+017F (long s, bytes C5 BF) and U+212A (Kelvin sign, bytes
  E2 84 AA); \<open>foldName\<close> maps the ASCII letters and these two to upper case and
  leaves every other byte, so a key matches an ASCII name exactly when the folded key
  is the upper-cased name.
\<close>

fun foldName :: "string \<Rightarrow> string" where
  "foldName [] = []"
| "foldName (c # cs) =
     (if (of_char c :: nat) < 128 then
        (if 97 \<le> (of_char c :: nat) \<and> (of_char c :: nat) \<le> 122
         then char_of ((of_char c :: nat) - 32) else c) # foldName cs
      else if c = CHR 0xC5 \<and> take 1 cs = [CHR 0xBF] then CHR ''S'' # foldName (drop 1 cs)
      else if c = CHR 0xE2 \<and> take 2 cs = [CHR 0x84, CHR 0xAA] then CHR ''K'' # foldName (drop 2 cs)
      else c # foldName cs)"

text \<open>
  A type mismatch is an \<open>UnmarshalTypeError\<close>; decoding goes on after it and
  \<open>Decode\<close> returns the earliest one, so the result is an error as soon as one
  member mismatches. The program panics on any error and never reads the partly
  filled struct, hence the model stops at the first mismatch.

  A string field takes a JSON string and is left as it is by \<open>null\<close>.
\<close>

definition storeString :: "json \<Rightarrow> string \<Rightarrow> error + string" where
  "storeString j old =
     (case j of JString s \<Rightarrow> Inr s | JNull \<Rightarrow> Inr old
      | _ \<Rightarrow> Inl (UnmarshalTypeError (kindOf j)))"

text \<open>
  A struct takes a JSON object, member by member in the order of the text, and is left
  as it is by \<open>null\<close>. \<open>f key value s\<close> stores one member into the struct \<open>s\<close>.
\<close>

fun storeMembers ::
  "(string \<Rightarrow> json \<Rightarrow> 'a \<Rightarrow> error + 'a) \<Rightarrow> (string \<times> json) list \<Rightarrow> 'a \<Rightarrow> error + 'a" where
  "storeMembers f [] s = Inr s"
| "storeMembers f ((k, v) # ms) s =
     (case f k v s of Inl e \<Rightarrow> Inl e | Inr s' \<Rightarrow> storeMembers f ms s')"

definition storeStruct ::
  "(string \<Rightarrow> json \<Rightarrow> 'a \<Rightarrow> error + 'a) \<Rightarrow> json \<Rightarrow> 'a \<Rightarrow> error + 'a" where
  "storeStruct f j s =
     (case j of JObject ms \<Rightarrow> storeMembers f ms s | JNull \<Rightarrow> Inr s
      | _ \<Rightarrow> Inl (UnmarshalTypeError (kindOf j)))"

definition seoFieldsMember :: "string \<Rightarrow> json \<Rightarrow> SeoFields \<Rightarrow> error + SeoFields" where
  "seoFieldsMember k v s =
     (if foldName k = ''SLUG''
      then (case storeString v (Slug s) of Inl e \<Rightarrow> Inl e | Inr x \<Rightarrow> Inr (s\<lparr>Slug := x\<rparr>))
      else Inr s)"

definition imageMember :: "string \<Rightarrow> json \<Rightarrow> Image \<Rightarrow> error + Image" where
  "imageMember k v s =
     (if foldName k = ''ORIGINAL_URL''
      then (case storeString v (Image_Url s) of Inl e \<Rightarrow> Inl e
            | Inr x \<Rightarrow> Inr (s\<lparr>Image_Url := x\<rparr>))
      else Inr s)"

definition nodeMember :: "string \<Rightarrow> json \<Rightarrow> Node \<Rightarrow> error + Node" where
  "nodeMember k v n =
     (if foldName k = ''ID''
      then (case storeString v (ID n) of Inl e \<Rightarrow> Inl e | Inr x \<Rightarrow> Inr (n\<lparr>ID := x\<rparr>))
      else if foldName k = ''TITLE''
      then (case storeString v (Node_Title n) of Inl e \<Rightarrow> Inl e
            | Inr x \<Rightarrow> Inr (n\<lparr>Node_Title := x\<rparr>))
      else if foldName k = ''PUBLISH_AT''
      then (case storeString v (Published n) of Inl e \<Rightarrow> Inl e
            | Inr x \<Rightarrow> Inr (n\<lparr>Published := x\<rparr>))
      else if foldName k = ''SEO_FIELDS''
      then (case storeStruct seoFieldsMember v (SeoFields n) of Inl e \<Rightarrow> Inl e
            | Inr x \<Rightarrow> Inr (n\<lparr>SeoFields := x\<rparr>))
      else if foldName k = ''FEATURED_IMAGE''
      then (case storeStruct imageMember v (Image n) of Inl e \<Rightarrow> Inl e
            | Inr x \<Rightarrow> Inr (n\<lparr>Image := x\<rparr>))
      else Inr n)"

definition zeroNode :: Node where
  "zeroNode = \<lparr>ID = [], Node_Title = [], Published = [], SeoFields = \<lparr>Slug = []\<rparr>,
              Image = \<lparr>Image_Url = []\<rparr>\<rparr>"

text \<open>
  A slice takes a JSON array: as the package documents it, the length is reset to zero
  and each element is appended, here decoded into a fresh \<open>Node\<close>; \<open>null\<close> makes the
  slice nil.
\<close>

fun storeNodes :: "json list \<Rightarrow> error + Node list" where
  "storeNodes [] = Inr []"
| "storeNodes (j # js) =
     (case storeStruct nodeMember j zeroNode of Inl e \<Rightarrow> Inl e
      | Inr n \<Rightarrow> (case storeNodes js of Inl e \<Rightarrow> Inl e | Inr ns \<Rightarrow> Inr (n # ns)))"

definition storeSlice :: "json \<Rightarrow> error + Node list" where
  "storeSlice j =
     (case j of JArray js \<Rightarrow> storeNodes js | JNull \<Rightarrow> Inr []
      | _ \<Rightarrow> Inl (UnmarshalTypeError (kindOf j)))"

definition dataMember :: "string \<Rightarrow> json \<Rightarrow> JsonData \<Rightarrow> error + JsonData" where
  "dataMember k v d =
     (if foldName k = ''NODES''
      then (case storeSlice v of Inl e \<Rightarrow> Inl e | Inr x \<Rightarrow> Inr (d\<lparr>Nodes := x\<rparr>))
      else Inr d)"

definition responseMember :: "string \<Rightarrow> json \<Rightarrow> JsonResponse \<Rightarrow> error + JsonResponse" where
  "responseMember k v r =
     (if foldName k = ''DATA''
      then (case storeStruct dataMember v (Data r) of Inl e \<Rightarrow> Inl e
            | Inr x \<Rightarrow> Inr (r\<lparr>Data := x\<rparr>))
      else Inr r)"

definition zeroJsonResponse :: JsonResponse where
  "zeroJsonResponse = \<lparr>Data = \<lparr>Nodes = []\<rparr>\<rparr>"

text \<open>\<open>parser.Decode(&jsonBody)\<close> with \<open>jsonBody\<close> freshly declared.\<close>

definition Decode :: "body \<Rightarrow> error + JsonResponse" where
  "Decode b =
     (case b of NotJson \<Rightarrow> Inl SyntaxError
      | JsonValue j \<Rightarrow> storeStruct responseMember j zeroJsonResponse)"

section \<open>JsonToRssItem\<close>

text \<open>The global \<open>config\<close> is read by the function; here it is its first argument.\<close>

definition JsonToRssItem :: "Config \<Rightarrow> Node \<Rightarrow> RssItem" where
  "JsonToRssItem config node =
     (let okoTimeFormat = fst (ParseInLocation (Published node));
          rssTimeFormat = Format okoTimeFormat;
          link = ''https://oko.press/'' @ Slug (SeoFields node);
          imageUrl = ThumbnailCompression config @ Image_Url (Image node)
      in \<lparr>Item_Title = Node_Title node,
          Item_Link = link,
          Guid = \<lparr>Content = ID node, IsPermaLink = False\<rparr>,
          PubDate = rssTimeFormat,
          Enclosure = \<lparr>Enclosure_Url = imageUrl, Length = 0, Type = ''image/jpeg''\<rparr>\<rparr>)"

section \<open>encoding/xml, as far as the struct tags of RssFeed use it\<close>

text \<open>
  \<open>utf8.DecodeRune\<close>: the code point at the head of the bytes and its width; a byte
  that starts no well-formed encoding is \<open>RuneError\<close> (U+FFFD) of width 1.
\<close>

definition DecodeRune :: "string \<Rightarrow> nat \<times> nat" where
  "DecodeRune p =
     (case p of [] \<Rightarrow> (0xFFFD, 0)
      | c # cs \<Rightarrow>
          let x = (of_char c :: nat) in
          if x < 0x80 then (x, 1)
          else if x < 0xC2 \<or> 0xF4 < x then (0xFFFD, 1)
          else
            let sz = (if x < 0xE0 then 2 else if x < 0xF0 then 3 else (4::nat));
                lo = (if x = 0xE0 then 0xA0 else if x = 0xF0 then 0x90 else (0x80::nat));
                hi = (if x = 0xED then 0x9F else if x = 0xF4 then 0x8F else (0xBF::nat));
                b1 = (of_char (p ! 1) :: nat);
                b2 = (of_char (p ! 2) :: nat);
                b3 = (of_char (p ! 3) :: nat)
            in if length p < sz then (0xFFFD, 1)
               else if b1 < lo \<or> hi < b1 then (0xFFFD, 1)
               else if sz \<le> 2 then ((x mod 0x20) * 0x40 + b1 mod 0x40, 2)
               else if b2 < 0x80 \<or> 0xBF < b2 then (0xFFFD, 1)
               else if sz \<le> 3 then ((x mod 0x10) * 0x1000 + (b1 mod 0x40) * 0x40 + b2 mod 0x40, 3)
               else if b3 < 0x80 \<or> 0xBF < b3 then (0xFFFD, 1)
               else ((x mod 0x08) * 0x40000 + (b1 mod 0x40) * 0x1000 + (b2 mod 0x40) * 0x40
                       + b3 mod 0x40, 4))"

definition isInCharacterRange :: "nat \<Rightarrow> bool" where
  "isInCharacterRange r =
     (r = 0x09 \<or> r = 0x0A \<or> r = 0x0D \<or> (0x20 \<le> r \<and> r \<le> 0xD7FF) \<or>
      (0xE000 \<le> r \<and> r \<le> 0xFFFD) \<or> (0x10000 \<le> r \<and> r \<le> 0x10FFFF))"

text \<open>What the printer writes for one code point \<open>r\<close> of width \<open>w\<close> read from \<open>bs\<close>.\<close>

definition escapeRune :: "nat \<Rightarrow> nat \<Rightarrow> string \<Rightarrow> string" where
  "escapeRune r w bs =
     (if r = 0x22 then ''&#34;''
      else if r = 0x27 then ''&#39;''
      else if r = 0x26 then ''&amp;''
      else if r = 0x3C then ''&lt;''
      else if r = 0x3E then ''&gt;''
      else if r = 0x09 then ''&#x9;''
      else if r = 0x0A then ''&#xA;''
      else if r = 0x0D then ''&#xD;''
      else if \<not> isInCharacterRange r \<or> (r = 0xFFFD \<and> w = 1) then [CHR 0xEF, CHR 0xBF, CHR 0xBD]
      else take w bs)"

text \<open>
  \<open>EscapeString\<close>: rune by rune. A non-empty string has a first rune of width at
  least 1, so dropping \<open>w - 1\<close> bytes of the tail drops \<open>w\<close> bytes of the string.
\<close>

fun escapeText :: "string \<Rightarrow> string" where
  "escapeText [] = []"
| "escapeText (c # cs) =
     (let (r, w) = DecodeRune (c # cs)
      in escapeRune r w (c # cs) @ escapeText (drop (w - 1) cs))"

declare escapeText.simps(2) [simp del]

text \<open>
  An element as the encoder sees a struct value: name, attributes, character data,
  child elements. The printer of \<open>MarshalIndent(v, "", " ")\<close> puts every start tag on
  a new line, indented by one space for each level, and an end tag on a new line only
  after child elements; it never writes an empty-element tag.
\<close>

datatype xmlNode = Element string "(string \<times> string) list" string "xmlNode list"

definition printAttr :: "string \<times> string \<Rightarrow> string" where
  "printAttr a = '' '' @ fst a @ ''='' @ [CHR 0x22] @ escapeText (snd a) @ [CHR 0x22]"

fun printElement :: "nat \<Rightarrow> xmlNode \<Rightarrow> string" where
  "printElement depth (Element name attrs chardata kids) =
     ''<'' @ name @ concat (map printAttr attrs) @ ''>'' @
     escapeText chardata @
     concat (map (\<lambda>kid. [CHR 0x0A] @ replicate (Suc depth) CHR '' '' @
                           printElement (Suc depth) kid) kids) @
     (if kids = [] then [] else [CHR 0x0A] @ replicate depth CHR '' '') @
     ''</'' @ name @ ''>''"

definition FormatBool :: "bool \<Rightarrow> string" where
  "FormatBool b = (if b then ''true'' else ''false'')"

definition FormatInt :: "int \<Rightarrow> string" where
  "FormatInt x = (if x < 0 then ''-'' else []) @ decimal (nat \<bar>x\<bar>)"

text \<open>The elements that the struct tags of \<open>RssItem\<close> and \<open>RssFeed\<close> describe.\<close>

definition itemElement :: "RssItem \<Rightarrow> xmlNode" where
  "itemElement it =
     Element ''item'' [] []
       [Element ''title'' [] (Item_Title it) [],
        Element ''link'' [] (Item_Link it) [],
        Element ''guid'' [(''isPermaLink'', FormatBool (IsPermaLink (Guid it)))]
          (Content (Guid it)) [],
        Element ''pubDate'' [] (PubDate it) [],
        Element ''enclosure''
          [(''url'', Enclosure_Url (Enclosure it)),
           (''length'', FormatInt (Length (Enclosure it))),
           (''type'', Type (Enclosure it))] [] []]"

definition rssElement :: "RssFeed \<Rightarrow> xmlNode" where
  "rssElement rss =
     Element ''rss'' [(''version'', Version rss), (''xmlns:atom'', Atom rss)] []
       [Element ''channel'' [] []
          ([Element ''atom:link''
              [(''rel'', Rel (AtomLink (Channel rss))),
               (''href'', Href (AtomLink (Channel rss)))] [] [],
            Element ''title'' [] (Channel_Title (Channel rss)) [],
            Element ''link'' [] (Channel_Link (Channel rss)) [],
            Element ''description'' [] (Desc (Channel rss)) []]
           @ map itemElement (Item (Channel rss)))]"

text \<open>
  \<open>xml.MarshalIndent(rss, "", " ")\<close>. Every field of \<open>RssFeed\<close> is a string, a
  bool, an int64, a struct or a slice of these, so the encoder has no error to return.
\<close>

definition MarshalIndent :: "RssFeed \<Rightarrow> error + string" where
  "MarshalIndent rss = Inr (printElement 0 (rssElement rss))"

section \<open>OkoPressRss\<close>

text \<open>
  What the program reads from outside: the answer of \<open>http.Get\<close> to a URL, the
  wall clock, the configuration file at a path (opening it may fail, and so may
  decoding it), and whether a port can be bound.
\<close>

record Response =
  StatusCode :: int
  Body :: body

record World =
  Get :: "string \<Rightarrow> error + Response"
  Now :: Time
  Open :: "string \<Rightarrow> error + (error + Config)"
  Listen :: "string \<Rightarrow> error option"

text \<open>Lines 101 to 120: the request, the status check and the decoding.\<close>

definition fetchJson :: "Config \<Rightarrow> World \<Rightarrow> panic + JsonResponse" where
  "fetchJson config world =
     (case Get world (Config_Url config) of
        Inl err \<Rightarrow> Inl (FetchPanic err)
      | Inr httpResponse \<Rightarrow>
          if StatusCode httpResponse \<noteq> 200 then Inl (StatusPanic (StatusCode httpResponse))
          else (case Decode (Body httpResponse) of
                  Inl err \<Rightarrow> Inl (JsonPanic err)
                | Inr jsonBody \<Rightarrow> Inr jsonBody))"

definition description :: string where
  "description =
     ''OKO.press to portal informacyjny, kt'' @
     [CHR 0xC3, CHR 0xB3] @
     ''ry publikuje najnowsze wiadomo'' @
     [CHR 0xC5, CHR 0x9B] @
     ''ci z r'' @
     [CHR 0xC3, CHR 0xB3, CHR 0xC5, CHR 0xBC] @
     ''nych dziedzin: polityki, gospodarki, sportu, kultury, nauki i nauki. Znajdziesz tu tak'' @
     [CHR 0xC5, CHR 0xBC] @
     ''e wywiady, analizy, sonda'' @
     [CHR 0xC5, CHR 0xBC] @
     ''e, podcasty i multimedia.''"

text \<open>The loop of lines 135 to 140, with its index and the slice it appends to.\<close>

function loopItems :: "Config \<Rightarrow> Node list \<Rightarrow> nat \<Rightarrow> RssItem list \<Rightarrow> RssItem list" where
  "loopItems config nodes i rssItems =
     (if i < length nodes
      then loopItems config nodes (Suc i) (rssItems @ [JsonToRssItem config (nodes ! i)])
      else rssItems)"
  by pat_completeness auto
termination
  by (relation "measure (\<lambda>(config, nodes, i, rssItems). length nodes - i)") auto

declare loopItems.simps [simp del]

text \<open>Lines 122 to 141: the feed struct.\<close>

definition buildRss :: "Config \<Rightarrow> JsonResponse \<Rightarrow> RssFeed" where
  "buildRss config jsonBody =
     (let link = ''https://oko.press'';
          nodes = Nodes (Data jsonBody)
      in \<lparr>Version = ''2.0'',
          Atom = ''http://www.w3.org/2005/Atom'',
          Channel = \<lparr>AtomLink = \<lparr>Rel = ''self'', Href = link\<rparr>,
                     Channel_Title = ''OKO.press'',
                     Channel_Link = link,
                     Desc = description,
                     Item = loopItems config nodes 0 []\<rparr>\<rparr>)"

text \<open>Lines 143 to 155: the XML text and the comment in front of it.\<close>

definition exportFeed :: "Time \<Rightarrow> RssFeed \<Rightarrow> panic + string" where
  "exportFeed now rss =
     (case MarshalIndent rss of
        Inl err \<Rightarrow> Inl (XmlPanic err)
      | Inr xmlText \<Rightarrow>
          Inr (''<!-- Last updated: '' @ Format now @ '' -->'' @ [CHR 0x0A] @ xmlText))"

definition OkoPressRss :: "Config \<Rightarrow> World \<Rightarrow> panic + string" where
  "OkoPressRss config world =
     (case fetchJson config world of
        Inl p \<Rightarrow> Inl p
      | Inr jsonBody \<Rightarrow> exportFeed (Now world) (buildRss config jsonBody))"

section \<open>serveHttp and main\<close>

text \<open>
  A response writer holds the header map, the status once it is written and the bytes
  of the body. The first \<open>Write\<close> without a status writes status 200.
\<close>

record Request =
  Method :: string
  RequestURI :: string

record ResponseWriter =
  Header :: "string \<rightharpoonup> string"
  Status :: "nat option"
  Written :: string

definition newWriter :: ResponseWriter where
  "newWriter = \<lparr>Header = Map.empty, Status = None, Written = []\<rparr>"

definition Write :: "ResponseWriter \<Rightarrow> string \<Rightarrow> ResponseWriter" where
  "Write w bs =
     w\<lparr>Status := (case Status w of None \<Rightarrow> Some 200 | Some s \<Rightarrow> Some s),
       Written := Written w @ bs\<rparr>"

definition Fprintln :: "ResponseWriter \<Rightarrow> string \<Rightarrow> ResponseWriter" where
  "Fprintln w s = Write w (s @ [CHR 0x0A])"

text \<open>The function registered for the pattern \<open>/\<close>; \<open>feed\<close> is the global it reads.\<close>

definition handler :: "string \<Rightarrow> ResponseWriter \<Rightarrow> Request \<Rightarrow> ResponseWriter" where
  "handler feed w r =
     Fprintln (w\<lparr>Header := (Header w)(''Content-Type'' \<mapsto> ''application/xml'')\<rparr>) feed"

record Server =
  Addr :: string
  Pattern :: string
  Handler :: "ResponseWriter \<Rightarrow> Request \<Rightarrow> ResponseWriter"

text \<open>
  \<open>serveHttp\<close> registers the handler and listens; it panics when the listener
  cannot be bound and otherwise serves for as long as the process lives.
\<close>

definition serveHttp :: "World \<Rightarrow> string \<Rightarrow> string \<Rightarrow> panic + Server" where
  "serveHttp world port feed =
     (case Listen world ('':'' @ port) of
        Some err \<Rightarrow> Inl (ServePanic err)
      | None \<Rightarrow> Inr \<lparr>Addr = '':'' @ port, Pattern = ''/'', Handler = handler feed\<rparr>)"

text \<open>
  \<open>main\<close> after \<open>flag.Parse\<close>: the two flags hold what the command line gave or
  their defaults. It ends by returning (no configuration path), by a panic, or by
  starting the two goroutines \<open>cron\<close> and \<open>serveHttp\<close> with the globals set.
  The flags \<open>port\<close> and \<open>configPath\<close> and the globals \<open>config\<close> and \<open>feed\<close>
  are record fields, named so that they do not hide the variables of the same names.
\<close>

record Flags =
  flagPort :: string
  flagConfigPath :: string

record Globals =
  globalConfig :: Config
  globalFeed :: string

datatype outcome = Returned | Panicked panic | Started Globals

definition main :: "World \<Rightarrow> Flags \<Rightarrow> outcome" where
  "main world flags =
     (if flagConfigPath flags = ''NO_CONFIG'' then Returned
      else (case Open world (flagConfigPath flags) of
              Inl err \<Rightarrow> Panicked (FilePanic err)
            | Inr file \<Rightarrow>
                (case file of
                   Inl err \<Rightarrow> Panicked (ConfigPanic err)
                 | Inr cfg \<Rightarrow>
                     (case OkoPressRss cfg world of
                        Inl p \<Rightarrow> Panicked p
                      | Inr text \<Rightarrow> Started \<lparr>globalConfig = cfg, globalFeed = text\<rparr>))))"

text \<open>The server of a run: \<open>serveHttp\<close> is entered only by a process that \<open>main\<close> started.\<close>

definition server :: "World \<Rightarrow> Flags \<Rightarrow> (panic + Server) option" where
  "server world flags =
     (case main world flags of
        Started g \<Rightarrow> Some (serveHttp world (flagPort flags) (globalFeed g))
      | _ \<Rightarrow> None)"

text \<open>
  A world in which \<open>http.Get\<close> yields \<open>got\<close> for every URL, the clock shows
  \<open>now\<close>, every path holds the configuration \<open>cfg\<close> and every port is free.
\<close>

definition answering :: "error + Response \<Rightarrow> Config \<Rightarrow> Time \<Rightarrow> World" where
  "answering got cfg now =
     \<lparr>Get = (\<lambda>url. got), Now = now, Open = (\<lambda>path. Inr (Inr cfg)),
      Listen = (\<lambda>addr. None)\<rparr>"

text \<open>A byte that the XML printer copies unchanged: printable ASCII but the five escaped.\<close>

definition plainChar :: "char \<Rightarrow> bool" where
  "plainChar c = ((of_char c :: nat) < 128 \<and> 32 \<le> (of_char c :: nat) \<and>
                  (of_char c :: nat) \<notin> {0x22, 0x27, 0x26, 0x3C, 0x3E})"

section \<open>Properties of the record mapper\<close>

lemma Format_zeroTime: "Format zeroTime = ''01 Jan 0001 00:00 +0000''"
  by code_simp

lemma scenario_time:
  "Format (fst (ParseInLocation ''2023-05-01T10:00:00'')) = ''01 May 2023 10:00 +0000''"
  by code_simp

text \<open>
  C2. For every record and every image-proxy prefix, the mapped item links to
  \<open>https://oko.press/\<close> followed by the slug, its enclosure is the prefix followed by
  the raw image URL with length 0 and type \<open>image/jpeg\<close>, and its guid is the raw ID
  with the permalink flag false, whatever the ID looks like.
\<close>

theorem JsonToRssItem_fields:
  "Item_Link (JsonToRssItem config node) = ''https://oko.press/'' @ Slug (SeoFields node) \<and>
   Enclosure_Url (Enclosure (JsonToRssItem config node)) =
     ThumbnailCompression config @ Image_Url (Image node) \<and>
   Length (Enclosure (JsonToRssItem config node)) = 0 \<and>
   Type (Enclosure (JsonToRssItem config node)) = ''image/jpeg'' \<and>
   Content (Guid (JsonToRssItem config node)) = ID node \<and>
   IsPermaLink (Guid (JsonToRssItem config node)) = False"
  by (simp add: JsonToRssItem_def Let_def)

text \<open>
  C4. When the publish timestamp does not parse, the mapper still returns an item:
  the error of \<open>ParseInLocation\<close> is dropped and the item's pubDate is the zero time,
  printed as \<open>01 Jan 0001 00:00 +0000\<close>; the other fields are mapped as usual.
\<close>

theorem JsonToRssItem_parse_error:
  assumes "snd (ParseInLocation (Published node)) \<noteq> None"
  shows "JsonToRssItem config node =
           \<lparr>Item_Title = Node_Title node,
            Item_Link = ''https://oko.press/'' @ Slug (SeoFields node),
            Guid = \<lparr>Content = ID node, IsPermaLink = False\<rparr>,
            PubDate = ''01 Jan 0001 00:00 +0000'',
            Enclosure = \<lparr>Enclosure_Url = ThumbnailCompression config @ Image_Url (Image node),
                         Length = 0, Type = ''image/jpeg''\<rparr>\<rparr>"
proof -
  from assms have "fst (ParseInLocation (Published node)) = zeroTime"
    by (simp add: ParseInLocation_def split: option.splits)
  then show ?thesis
    by (simp add: JsonToRssItem_def Let_def Format_zeroTime)
qed

text \<open>Witness for C4: the timestamp \<open>yesterday\<close> does not parse.\<close>

theorem JsonToRssItem_parse_error_witness:
  "snd (ParseInLocation (Published
      \<lparr>ID = ''7'', Node_Title = ''T'', Published = ''yesterday'',
       SeoFields = \<lparr>Slug = ''s''\<rparr>, Image = \<lparr>Image_Url = ''/i.png''\<rparr>\<rparr>)) \<noteq> None \<and>
   JsonToRssItem \<lparr>Config_Url = ''u'', ThumbnailCompression = ''p/'', Interval = 5\<rparr>
      \<lparr>ID = ''7'', Node_Title = ''T'', Published = ''yesterday'',
       SeoFields = \<lparr>Slug = ''s''\<rparr>, Image = \<lparr>Image_Url = ''/i.png''\<rparr>\<rparr> =
     \<lparr>Item_Title = ''T'',
      Item_Link = ''https://oko.press/s'',
      Guid = \<lparr>Content = ''7'', IsPermaLink = False\<rparr>,
      PubDate = ''01 Jan 0001 00:00 +0000'',
      Enclosure = \<lparr>Enclosure_Url = ''p//i.png'', Length = 0, Type = ''image/jpeg''\<rparr>\<rparr>"
proof -
  have h: "snd (ParseInLocation (Published
      \<lparr>ID = ''7'', Node_Title = ''T'', Published = ''yesterday'',
       SeoFields = \<lparr>Slug = ''s''\<rparr>, Image = \<lparr>Image_Url = ''/i.png''\<rparr>\<rparr>)) \<noteq> None"
    by code_simp
  show ?thesis
    using h JsonToRssItem_parse_error [OF h,
      of "\<lparr>Config_Url = ''u'', ThumbnailCompression = ''p/'', Interval = 5\<rparr>"]
    by simp
qed

section \<open>Properties of the feed builder\<close>

lemma loopItems_eq:
  "loopItems config nodes i rssItems = rssItems @ map (JsonToRssItem config) (drop i nodes)"
proof (induction config nodes i rssItems rule: loopItems.induct)
  case (1 config nodes i rssItems)
  show ?case
  proof (cases "i < length nodes")
    case True
    then have "drop i nodes = nodes ! i # drop (Suc i) nodes"
      by (simp add: Cons_nth_drop_Suc)
    with True "1" show ?thesis
      by (subst loopItems.simps) simp
  next
    case False
    then show ?thesis
      by (subst loopItems.simps) simp
  qed
qed

text \<open>
  C7. The items of the feed document are the mapped records, one for each record of
  the decoded response and in the order of the response: the loop neither drops,
  repeats nor reorders.
\<close>

theorem buildRss_items:
  "Item (Channel (buildRss config jsonBody)) =
     map (JsonToRssItem config) (Nodes (Data jsonBody))"
  by (simp add: buildRss_def Let_def loopItems_eq)

lemma isDigitChar_decimal: "c \<in> set (decimal n) \<Longrightarrow> isDigitChar c"
proof (induction n rule: decimal.induct)
  case (1 n)
  have d: "isDigitChar (digitChar k)" if "k < 10" for k
    using that by (simp add: isDigitChar_def digitChar_def)
  show ?case
  proof (cases "n < 10")
    case True
    then have "decimal n = [digitChar n]"
      by (subst decimal.simps) simp
    with "1.prems" True d show ?thesis
      by simp
  next
    case False
    then have "decimal n = decimal (n div 10) @ [digitChar (n mod 10)]"
      by (subst decimal.simps) simp
    with "1.prems" have "c \<in> set (decimal (n div 10)) \<or> c = digitChar (n mod 10)"
      by auto
    with False "1.IH" d [of "n mod 10"] show ?thesis
      by auto
  qed
qed







subsection \<open>The XML text\<close>

lemma DecodeRune_ascii: "(of_char c :: nat) < 128 \<Longrightarrow> DecodeRune (c # cs) = (of_char c, 1)"
  by (simp add: DecodeRune_def)

lemma escapeText_plain:
  assumes "(of_char c :: nat) < 128" "32 \<le> (of_char c :: nat)"
    "(of_char c :: nat) \<notin> {0x22, 0x27, 0x26, 0x3C, 0x3E}"
  shows "escapeText (c # cs) = c # escapeText cs"
  using assms
  by (simp add: escapeText.simps(2) DecodeRune_ascii escapeRune_def isInCharacterRange_def)

lemma escapeText_two:
  assumes "0xC2 \<le> (of_char c :: nat)" "(of_char c :: nat) < 0xE0"
    "0x80 \<le> (of_char d :: nat)" "(of_char d :: nat) \<le> 0xBF"
  shows "escapeText (c # d # cs) = c # d # escapeText cs"
proof -
  define a where "a = (of_char c :: nat) mod 0x20"
  define b where "b = (of_char d :: nat) mod 0x40"
  have dr: "DecodeRune (c # d # cs) = (a * 0x40 + b, 2)"
    using assms by (simp add: DecodeRune_def Let_def a_def b_def)
  have "2 \<le> a" "a < 32" "b < 64"
    using assms unfolding a_def b_def by presburger+
  then have "0x80 \<le> a * 0x40 + b" "a * 0x40 + b < 0x800"
    by linarith+
  then have "escapeRune (a * 0x40 + b) 2 (c # d # cs) = [c, d]"
    by (simp add: escapeRune_def isInCharacterRange_def)
  then show ?thesis
    by (simp add: escapeText.simps(2) dr)
qed

lemma escapeText_description: "escapeText description = description"
  by (simp add: escapeText_plain escapeText_two description_def)

lemma escapeText_all_plain: "list_all plainChar s \<Longrightarrow> escapeText s = s"
  by (induction s) (simp_all add: escapeText_plain plainChar_def)

lemma plainChar_digit: "isDigitChar c \<Longrightarrow> plainChar c"
  by (simp add: isDigitChar_def plainChar_def)

lemma escapeText_FormatInt: "escapeText (FormatInt x) = FormatInt x"
proof -
  have "list_all plainChar (decimal (nat \<bar>x\<bar>))"
    by (simp add: list_all_iff plainChar_digit isDigitChar_decimal)
  then have "list_all plainChar (FormatInt x)"
    by (simp add: FormatInt_def plainChar_def)
  then show ?thesis
    by (rule escapeText_all_plain)
qed

lemma escapeText_FormatBool: "escapeText (FormatBool b) = FormatBool b"
  by (simp add: FormatBool_def escapeText_plain)

lemma printElement_item:
  "printElement 2 (itemElement it) =
     ''<item>'' @ [CHR 0x0A] @
     ''   <title>'' @ escapeText (Item_Title it) @ ''</title>'' @ [CHR 0x0A] @
     ''   <link>'' @ escapeText (Item_Link it) @ ''</link>'' @ [CHR 0x0A] @
     ''   <guid isPermaLink=\"'' @ FormatBool (IsPermaLink (Guid it)) @ ''\">'' @
        escapeText (Content (Guid it)) @ ''</guid>'' @ [CHR 0x0A] @
     ''   <pubDate>'' @ escapeText (PubDate it) @ ''</pubDate>'' @ [CHR 0x0A] @
     ''   <enclosure url=\"'' @ escapeText (Enclosure_Url (Enclosure it)) @
        ''\" length=\"'' @ FormatInt (Length (Enclosure it)) @
        ''\" type=\"'' @ escapeText (Type (Enclosure it)) @ ''\"></enclosure>'' @ [CHR 0x0A] @
     ''  </item>''"
  by (simp add: itemElement_def printAttr_def escapeText_FormatInt escapeText_FormatBool
        eval_nat_numeral)

lemma MarshalIndent_text:
  "MarshalIndent rss =
     Inr (''<rss version=\"'' @ escapeText (Version rss) @
          ''\" xmlns:atom=\"'' @ escapeText (Atom rss) @ ''\">'' @ [CHR 0x0A] @
          '' <channel>'' @ [CHR 0x0A] @
          ''  <atom:link rel=\"'' @ escapeText (Rel (AtomLink (Channel rss))) @
             ''\" href=\"'' @ escapeText (Href (AtomLink (Channel rss))) @
             ''\"></atom:link>'' @ [CHR 0x0A] @
          ''  <title>'' @ escapeText (Channel_Title (Channel rss)) @ ''</title>'' @ [CHR 0x0A] @
          ''  <link>'' @ escapeText (Channel_Link (Channel rss)) @ ''</link>'' @ [CHR 0x0A] @
          ''  <description>'' @ escapeText (Desc (Channel rss)) @ ''</description>'' @
          concat (map (\<lambda>it. [CHR 0x0A] @ ''  '' @ printElement 2 (itemElement it))
                    (Item (Channel rss))) @ [CHR 0x0A] @
          '' </channel>'' @ [CHR 0x0A] @
          ''</rss>'')"
  by (simp add: MarshalIndent_def rssElement_def printAttr_def eval_nat_numeral comp_def)

lemma FormatInt_0: "FormatInt 0 = ''0''"
  by code_simp


section \<open>Properties of the decoding\<close>

lemma foldName_keys:
  "foldName ''data'' = ''DATA''"
  "foldName ''nodes'' = ''NODES''"
  "foldName ''id'' = ''ID''"
  "foldName ''title'' = ''TITLE''"
  "foldName ''publish_at'' = ''PUBLISH_AT''"
  "foldName ''seo_fields'' = ''SEO_FIELDS''"
  "foldName ''slug'' = ''SLUG''"
  "foldName ''featured_image'' = ''FEATURED_IMAGE''"
  "foldName ''original_url'' = ''ORIGINAL_URL''"
  by code_simp+

lemma scenario_decode:
  "Decode (JsonValue (JObject [(''data'', JObject [(''nodes'', JArray [JObject
       [(''id'', JString ''42''), (''title'', JString ''Test''),
        (''publish_at'', JString ''2023-05-01T10:00:00''),
        (''seo_fields'', JObject [(''slug'', JString ''test-article'')]),
        (''featured_image'', JObject [(''original_url'', JString ''/img.jpg'')])]])])])) =
   Inr \<lparr>Data = \<lparr>Nodes =
     [\<lparr>ID = ''42'', Node_Title = ''Test'', Published = ''2023-05-01T10:00:00'',
       SeoFields = \<lparr>Slug = ''test-article''\<rparr>, Image = \<lparr>Image_Url = ''/img.jpg''\<rparr>\<rparr>]\<rparr>\<rparr>"
  by (simp add: Decode_def storeStruct_def responseMember_def dataMember_def storeSlice_def
        nodeMember_def seoFieldsMember_def imageMember_def storeString_def zeroNode_def
        zeroJsonResponse_def foldName_keys del: foldName.simps)




section \<open>Properties of the server\<close>



section \<open>Properties of the process\<close>

lemma main_panics:
  assumes "flagConfigPath flags \<noteq> ''NO_CONFIG''"
    and "Open world (flagConfigPath flags) = Inr (Inr cfg)"
    and "fetchJson cfg world = Inl p"
  shows "main world flags = Panicked p" and "server world flags = None"
  using assms by (simp_all add: server_def main_def OkoPressRss_def)

text \<open>
  C5. With a configuration loaded, when the request fails, or the status is not 200,
  or the body does not decode, \<open>main\<close> ends in a panic before the goroutines are
  started: \<open>serveHttp\<close> is never entered, so no listener is bound and nothing is
  served.
\<close>

theorem fetch_failure_is_fatal:
  assumes "flagConfigPath flags \<noteq> ''NO_CONFIG''"
    and "Open world (flagConfigPath flags) = Inr (Inr cfg)"
    and "(\<exists>err. Get world (Config_Url cfg) = Inl err) \<or>
         (\<exists>resp. Get world (Config_Url cfg) = Inr resp \<and>
            (StatusCode resp \<noteq> 200 \<or> (\<exists>err. Decode (Body resp) = Inl err)))"
  shows "(\<exists>p. main world flags = Panicked p) \<and> server world flags = None"
proof -
  from assms(3) have "\<exists>p. fetchJson cfg world = Inl p"
    by (auto simp: fetchJson_def)
  then obtain p where "fetchJson cfg world = Inl p" ..
  with assms(1,2) show ?thesis
    by (simp add: main_panics)
qed

text \<open>
  Witness for C5: a failed request, a status 503 and a body that is not JSON.
\<close>

theorem fetch_failure_is_fatal_witness:
  "((\<exists>p. main (answering (Inl NetError)
                 \<lparr>Config_Url = ''http://api'', ThumbnailCompression = ''p/'', Interval = 5\<rparr>
                 zeroTime)
              \<lparr>flagPort = ''8000'', flagConfigPath = ''config.json''\<rparr> = Panicked p) \<and>
    server (answering (Inl NetError)
             \<lparr>Config_Url = ''http://api'', ThumbnailCompression = ''p/'', Interval = 5\<rparr>
             zeroTime)
          \<lparr>flagPort = ''8000'', flagConfigPath = ''config.json''\<rparr> = None) \<and>
   ((\<exists>p. main (answering (Inr \<lparr>StatusCode = 503, Body = JsonValue (JObject [])\<rparr>)
                 \<lparr>Config_Url = ''http://api'', ThumbnailCompression = ''p/'', Interval = 5\<rparr>
                 zeroTime)
              \<lparr>flagPort = ''8000'', flagConfigPath = ''config.json''\<rparr> = Panicked p) \<and>
    server (answering (Inr \<lparr>StatusCode = 503, Body = JsonValue (JObject [])\<rparr>)
             \<lparr>Config_Url = ''http://api'', ThumbnailCompression = ''p/'', Interval = 5\<rparr>
             zeroTime)
          \<lparr>flagPort = ''8000'', flagConfigPath = ''config.json''\<rparr> = None) \<and>
   ((\<exists>p. main (answering (Inr \<lparr>StatusCode = 200, Body = NotJson\<rparr>)
                 \<lparr>Config_Url = ''http://api'', ThumbnailCompression = ''p/'', Interval = 5\<rparr>
                 zeroTime)
              \<lparr>flagPort = ''8000'', flagConfigPath = ''config.json''\<rparr> = Panicked p) \<and>
    server (answering (Inr \<lparr>StatusCode = 200, Body = NotJson\<rparr>)
             \<lparr>Config_Url = ''http://api'', ThumbnailCompression = ''p/'', Interval = 5\<rparr>
             zeroTime)
          \<lparr>flagPort = ''8000'', flagConfigPath = ''config.json''\<rparr> = None)"
proof (intro conjI)
  let ?cfg = "\<lparr>Config_Url = ''http://api'', ThumbnailCompression = ''p/'', Interval = 5\<rparr>"
  let ?flags = "\<lparr>flagPort = ''8000'', flagConfigPath = ''config.json''\<rparr>"
  have net: "(\<exists>p. main (answering (Inl NetError) ?cfg zeroTime) ?flags = Panicked p) \<and>
             server (answering (Inl NetError) ?cfg zeroTime) ?flags = None"
    by (rule fetch_failure_is_fatal [of _ _ ?cfg]) (simp_all add: answering_def)
  have status:
    "(\<exists>p. main (answering (Inr \<lparr>StatusCode = 503, Body = JsonValue (JObject [])\<rparr>) ?cfg zeroTime)
              ?flags = Panicked p) \<and>
     server (answering (Inr \<lparr>StatusCode = 503, Body = JsonValue (JObject [])\<rparr>) ?cfg zeroTime)
       ?flags = None"
    by (rule fetch_failure_is_fatal [of _ _ ?cfg]) (simp_all add: answering_def)
  have decode:
    "(\<exists>p. main (answering (Inr \<lparr>StatusCode = 200, Body = NotJson\<rparr>) ?cfg zeroTime)
              ?flags = Panicked p) \<and>
     server (answering (Inr \<lparr>StatusCode = 200, Body = NotJson\<rparr>) ?cfg zeroTime) ?flags = None"
    by (rule fetch_failure_is_fatal [of _ _ ?cfg]) (simp_all add: answering_def Decode_def)
  show "\<exists>p. main (answering (Inl NetError) ?cfg zeroTime) ?flags = Panicked p"
    and "server (answering (Inl NetError) ?cfg zeroTime) ?flags = None"
    using net by blast+
  show "\<exists>p. main (answering (Inr \<lparr>StatusCode = 503, Body = JsonValue (JObject [])\<rparr>) ?cfg zeroTime)
              ?flags = Panicked p"
    and "server (answering (Inr \<lparr>StatusCode = 503, Body = JsonValue (JObject [])\<rparr>) ?cfg zeroTime)
           ?flags = None"
    using status by blast+
  show "\<exists>p. main (answering (Inr \<lparr>StatusCode = 200, Body = NotJson\<rparr>) ?cfg zeroTime)
              ?flags = Panicked p"
    and "server (answering (Inr \<lparr>StatusCode = 200, Body = NotJson\<rparr>) ?cfg zeroTime) ?flags = None"
    using decode by blast+
qed





lemma scenario_item:
  "JsonToRssItem \<lparr>Config_Url = url, ThumbnailCompression = ''https://proxy/'', Interval = 5\<rparr>
     \<lparr>ID = ''42'', Node_Title = ''Test'', Published = ''2023-05-01T10:00:00'',
      SeoFields = \<lparr>Slug = ''test-article''\<rparr>, Image = \<lparr>Image_Url = ''/img.jpg''\<rparr>\<rparr> =
   \<lparr>Item_Title = ''Test'', Item_Link = ''https://oko.press/test-article'',
    Guid = \<lparr>Content = ''42'', IsPermaLink = False\<rparr>,
    PubDate = ''01 May 2023 10:00 +0000'',
    Enclosure = \<lparr>Enclosure_Url = ''https://proxy//img.jpg'', Length = 0, Type = ''image/jpeg''\<rparr>\<rparr>"
  by (simp add: JsonToRssItem_def Let_def scenario_time)

text \<open>
  C1. The upstream answers 200 with one record: id \<open>42\<close>, title \<open>Test\<close>,
  publish_at \<open>2023-05-01T10:00:00\<close>, slug \<open>test-article\<close>, image
  \<open>/img.jpg\<close>; the configuration has the prefix \<open>https://proxy/\<close> and the
  interval 5. Then the feed document has exactly one item, with link
  \<open>https://oko.press/test-article\<close>, guid \<open>42\<close> that is no permalink, enclosure
  \<open>https://proxy//img.jpg\<close> and pubDate \<open>01 May 2023 10:00 +0000\<close>; the feed
  text is the comment line and the XML below with that one item, and the handler
  serves it.
\<close>

theorem end_to_end_scenario:
  "let cfg = \<lparr>Config_Url = url, ThumbnailCompression = ''https://proxy/'', Interval = 5\<rparr>;
       payload = JObject [(''data'', JObject [(''nodes'', JArray [JObject
         [(''id'', JString ''42''), (''title'', JString ''Test''),
          (''publish_at'', JString ''2023-05-01T10:00:00''),
          (''seo_fields'', JObject [(''slug'', JString ''test-article'')]),
          (''featured_image'', JObject [(''original_url'', JString ''/img.jpg'')])]])])];
       world = answering (Inr \<lparr>StatusCode = 200, Body = JsonValue payload\<rparr>) cfg now;
       flags = \<lparr>flagPort = port, flagConfigPath = ''config.json''\<rparr>;
       item = \<lparr>Item_Title = ''Test'', Item_Link = ''https://oko.press/test-article'',
               Guid = \<lparr>Content = ''42'', IsPermaLink = False\<rparr>,
               PubDate = ''01 May 2023 10:00 +0000'',
               Enclosure = \<lparr>Enclosure_Url = ''https://proxy//img.jpg'', Length = 0,
                            Type = ''image/jpeg''\<rparr>\<rparr>;
       feed =
         ''<!-- Last updated: '' @ Format now @ '' -->'' @ [CHR 0x0A] @
         ''<rss version=\"2.0\" xmlns:atom=\"http://www.w3.org/2005/Atom\">'' @ [CHR 0x0A] @
         '' <channel>'' @ [CHR 0x0A] @
         ''  <atom:link rel=\"self\" href=\"https://oko.press\"></atom:link>'' @ [CHR 0x0A] @
         ''  <title>OKO.press</title>'' @ [CHR 0x0A] @
         ''  <link>https://oko.press</link>'' @ [CHR 0x0A] @
         ''  <description>'' @ description @ ''</description>'' @ [CHR 0x0A] @
         ''  <item>'' @ [CHR 0x0A] @
         ''   <title>Test</title>'' @ [CHR 0x0A] @
         ''   <link>https://oko.press/test-article</link>'' @ [CHR 0x0A] @
         ''   <guid isPermaLink=\"false\">42</guid>'' @ [CHR 0x0A] @
         ''   <pubDate>01 May 2023 10:00 +0000</pubDate>'' @ [CHR 0x0A] @
         ''   <enclosure url=\"https://proxy//img.jpg\" length=\"0\" type=\"image/jpeg\"></enclosure>'' @ [CHR 0x0A] @
         ''  </item>'' @ [CHR 0x0A] @
         '' </channel>'' @ [CHR 0x0A] @
         ''</rss>''
   in (case fetchJson cfg world of
         Inl p \<Rightarrow> False
       | Inr jsonBody \<Rightarrow> Item (Channel (buildRss cfg jsonBody)) = [item]) \<and>
      main world flags = Started \<lparr>globalConfig = cfg, globalFeed = feed\<rparr> \<and>
      server world flags =
        Some (Inr \<lparr>Addr = '':'' @ port, Pattern = ''/'', Handler = handler feed\<rparr>) \<and>
      Written (handler feed newWriter r) = feed @ [CHR 0x0A]"
proof -
  let ?cfg = "\<lparr>Config_Url = url, ThumbnailCompression = ''https://proxy/'', Interval = 5\<rparr>"
  let ?node = "\<lparr>ID = ''42'', Node_Title = ''Test'', Published = ''2023-05-01T10:00:00'',
      SeoFields = \<lparr>Slug = ''test-article''\<rparr>, Image = \<lparr>Image_Url = ''/img.jpg''\<rparr>\<rparr>"
  let ?payload = "JObject [(''data'', JObject [(''nodes'', JArray [JObject
         [(''id'', JString ''42''), (''title'', JString ''Test''),
          (''publish_at'', JString ''2023-05-01T10:00:00''),
          (''seo_fields'', JObject [(''slug'', JString ''test-article'')]),
          (''featured_image'', JObject [(''original_url'', JString ''/img.jpg'')])]])])]"
  let ?world = "answering (Inr \<lparr>StatusCode = 200, Body = JsonValue ?payload\<rparr>) ?cfg now"
  have fetch: "fetchJson ?cfg ?world = Inr \<lparr>Data = \<lparr>Nodes = [?node]\<rparr>\<rparr>"
    by (simp add: fetchJson_def answering_def scenario_decode)
  have items: "Item (Channel (buildRss ?cfg \<lparr>Data = \<lparr>Nodes = [?node]\<rparr>\<rparr>)) =
                 [JsonToRssItem ?cfg ?node]"
    by (simp add: buildRss_def Let_def loopItems_eq)
  have rss: "OkoPressRss ?cfg ?world =
     Inr (''<!-- Last updated: '' @ Format now @ '' -->'' @ [CHR 0x0A] @
         ''<rss version=\"2.0\" xmlns:atom=\"http://www.w3.org/2005/Atom\">'' @ [CHR 0x0A] @
         '' <channel>'' @ [CHR 0x0A] @
         ''  <atom:link rel=\"self\" href=\"https://oko.press\"></atom:link>'' @ [CHR 0x0A] @
         ''  <title>OKO.press</title>'' @ [CHR 0x0A] @
         ''  <link>https://oko.press</link>'' @ [CHR 0x0A] @
         ''  <description>'' @ description @ ''</description>'' @ [CHR 0x0A] @
         ''  <item>'' @ [CHR 0x0A] @
         ''   <title>Test</title>'' @ [CHR 0x0A] @
         ''   <link>https://oko.press/test-article</link>'' @ [CHR 0x0A] @
         ''   <guid isPermaLink=\"false\">42</guid>'' @ [CHR 0x0A] @
         ''   <pubDate>01 May 2023 10:00 +0000</pubDate>'' @ [CHR 0x0A] @
         ''   <enclosure url=\"https://proxy//img.jpg\" length=\"0\" type=\"image/jpeg\"></enclosure>'' @ [CHR 0x0A] @
         ''  </item>'' @ [CHR 0x0A] @
         '' </channel>'' @ [CHR 0x0A] @
         ''</rss>'')"
    apply (simp only: OkoPressRss_def fetch sum.case exportFeed_def MarshalIndent_text
             printElement_item)
    apply (simp add: buildRss_def Let_def loopItems_eq scenario_item answering_def
             escapeText_description escapeText_plain FormatBool_def FormatInt_0)
    done
  have opened: "Open ?world ''config.json'' = Inr (Inr ?cfg)"
    by (simp add: answering_def)
  have free: "Listen ?world ('':'' @ port) = None"
    by (simp add: answering_def)
  have m: "main ?world \<lparr>flagPort = port, flagConfigPath = ''config.json''\<rparr> =
             Started \<lparr>globalConfig = ?cfg, globalFeed = projr (OkoPressRss ?cfg ?world)\<rparr>"
    by (simp add: main_def opened rss)
  have s: "server ?world \<lparr>flagPort = port, flagConfigPath = ''config.json''\<rparr> =
     Some (Inr \<lparr>Addr = '':'' @ port, Pattern = ''/'',
                Handler = handler (projr (OkoPressRss ?cfg ?world))\<rparr>)"
    using free by (simp add: server_def m serveHttp_def)
  have h: "Written (handler f newWriter r) = f @ [CHR 0x0A]" for f
    by (simp add: handler_def Fprintln_def Write_def newWriter_def)
  show ?thesis
    unfolding Let_def using items m s h
    by (simp only: fetch rss sum.sel sum.case scenario_item simp_thms)
qed

end
